theory Spec2Isabelle
  imports Main "HOL-Library.Word"
begin

section \<open>Values shared by the two packages\<close>

text \<open>
  A Go \<^verbatim>\<open>error\<close> value is known to the handlers only through its \<^verbatim>\<open>Error()\<close>
  text; the selector \<open>Error\<close> reads it.
\<close>

datatype error = GoError (Error: string)

text \<open>\<^verbatim>\<open>time.Duration\<close> and \<^verbatim>\<open>int64\<close> are signed 64-bit integers.\<close>

type_synonym Duration = "64 word"
type_synonym int64 = "64 word"

section \<open>Package oidc: data\<close>

text \<open>
  \<^verbatim>\<open>uuid.UUID\<close> is sixteen bytes. \<^verbatim>\<open>oauth2.TokenInfo\<close> is read by the endpoint through
  \<^verbatim>\<open>GetScope\<close> and \<^verbatim>\<open>GetUserID\<close> only.
\<close>

type_synonym UUID = "128 word"

record TokenInfo =
  GetScope :: string
  GetUserID :: string

text \<open>
  Modelled from the spec: \<^verbatim>\<open>console.UserStatus\<close> and its constant \<^verbatim>\<open>Active\<close> are
  declared outside the files at hand. The spec tells an active account from every other
  one, so a status is an integer code and \<open>Active\<close> is one fixed code.
\<close>

type_synonym UserStatus = int

definition Active :: UserStatus where
  "Active = 1"

text \<open>The fields of \<^verbatim>\<open>console.User\<close> that the endpoint reads.\<close>

record User =
  ID :: UUID
  Email :: string
  Status :: UserStatus

record ProviderConfig =
  Issuer :: string
  AuthURL :: string
  TokenURL :: string
  UserInfoURL :: string

record UserInfo =
  Subject :: UUID
  Email :: string
  EmailVerified :: bool
  Project :: string
  Buckets :: "string list"
  Cubbyhole :: string

text \<open>
  \<^verbatim>\<open>json.Marshal\<close> sees a struct as its fields in declaration order, each under the
  name of its \<^verbatim>\<open>json\<close> tag.
\<close>

datatype go_value = VString string | VBool bool | VStrings "string list" | VUUID UUID

type_synonym json_fields = "(string \<times> go_value) list"

definition ProviderConfig_json :: "ProviderConfig \<Rightarrow> json_fields" where
  "ProviderConfig_json c =
     [(''issuer'', VString (Issuer c)),
      (''authorization_endpoint'', VString (AuthURL c)),
      (''token_endpoint'', VString (TokenURL c)),
      (''userinfo_endpoint'', VString (UserInfoURL c))]"

definition UserInfo_json :: "UserInfo \<Rightarrow> json_fields" where
  "UserInfo_json u =
     [(''sub'', VUUID (Subject u)),
      (''email'', VString (UserInfo.Email u)),
      (''email_verified'', VBool (EmailVerified u)),
      (''project'', VString (Project u)),
      (''buckets'', VStrings (Buckets u)),
      (''cubbyhole'', VString (Cubbyhole u))]"

section \<open>Package oidc: collaborators\<close>

text \<open>
  The token store answers \<^verbatim>\<open>GetByAccess\<close> with the Go pair (info, err); the account
  service answers \<^verbatim>\<open>GetUser\<close> with a user or an error.
\<close>

type_synonym TokenStore = "string \<Rightarrow> TokenInfo option \<times> error option"

record oidc_Service =
  TokenStore :: TokenStore

record console_Service =
  GetUser :: "UUID \<Rightarrow> error + User"

text \<open>
  \<^verbatim>\<open>manage.RefreshingConfig\<close> with the three fields \<^verbatim>\<open>NewEndpoint\<close> sets, and the manager
  with the settings that are plain values (the stores and the two generators are handed
  to it as well).
\<close>

record RefreshingConfig =
  AccessTokenExp :: Duration
  RefreshTokenExp :: Duration
  IsGenerateRefresh :: bool

record Manager =
  AuthorizeCodeExp :: Duration
  RefreshTokenCfg :: RefreshingConfig

record Server =
  manager :: Manager

record Request =
  Header :: "string \<rightharpoonup> string list"

text \<open>
  Functions the endpoint calls and that live outside \<^verbatim>\<open>endpoint.go\<close>: the scope decoder
  \<^verbatim>\<open>parseScope\<close> of this package, \<^verbatim>\<open>uuid.FromString\<close> and \<^verbatim>\<open>json.Marshal\<close>.
\<close>

record externals =
  parseScope :: "string \<Rightarrow> error + (UserInfo \<times> string list)"
  uuid_FromString :: "string \<Rightarrow> error + UUID"
  json_Marshal :: "json_fields \<Rightarrow> error + string"

record Endpoint =
  tokenStore :: TokenStore
  service :: console_Service
  server :: Server
  config :: ProviderConfig

section \<open>Package oidc: what a handler does with the response writer\<close>

text \<open>
  A handler answers through \<^verbatim>\<open>http.Error(w, msg, code)\<close> or through
  \<^verbatim>\<open>http.ServeContent(w, r, ...)\<close>; the response records the call and its arguments.
  The user-info handler also consults the token store and the account service; these
  calls are recorded in order.
\<close>

datatype response = http_Error string nat | http_ServeContent string

datatype call = GetByAccess_call string | GetUser_call UUID

definition StatusOK :: nat where "StatusOK = 200"
definition StatusPartialContent :: nat where "StatusPartialContent = 206"
definition StatusBadRequest :: nat where "StatusBadRequest = 400"
definition StatusUnauthorized :: nat where "StatusUnauthorized = 401"
definition StatusInternalServerError :: nat where "StatusInternalServerError = 500"

text \<open>\<^verbatim>\<open>strings.HasPrefix\<close>, \<^verbatim>\<open>strings.TrimPrefix\<close> and \<^verbatim>\<open>http.Header.Get\<close>.\<close>

definition HasPrefix :: "string \<Rightarrow> string \<Rightarrow> bool" where
  "HasPrefix s pre = (length s \<ge> length pre \<and> take (length pre) s = pre)"

definition TrimPrefix :: "string \<Rightarrow> string \<Rightarrow> string" where
  "TrimPrefix s pre = (if HasPrefix s pre then drop (length pre) s else s)"

definition Header_Get :: "(string \<rightharpoonup> string list) \<Rightarrow> string \<Rightarrow> string" where
  "Header_Get h key = (case h key of None \<Rightarrow> [] | Some [] \<Rightarrow> [] | Some (v # _) \<Rightarrow> v)"

text \<open>
  What the two library calls write to a response writer that is still untouched, as it
  is when the handlers below reach them. \<^verbatim>\<open>http.Error\<close> writes the status \<open>code\<close> and
  prints the message as a line, so the body is the message followed by a line feed.
\<close>

fun Error_body :: "response \<Rightarrow> string option" where
  "Error_body (http_Error msg code) = Some (msg @ [CHR 0x0A])"
| "Error_body (http_ServeContent content) = None"

text \<open>
  \<^verbatim>\<open>http.ServeContent\<close> chooses the status from the request. It first evaluates the
  precondition headers; with none of them present it reads \<^verbatim>\<open>Range\<close>: without a range
  the content is served whole with 200, and a range for the first byte of non-empty
  content (no \<^verbatim>\<open>If-Range\<close>) is served with 206. The other requests (preconditions, other
  ranges) are outside this model: \<open>None\<close>.
\<close>

definition no_preconditions :: "Request \<Rightarrow> bool" where
  "no_preconditions r =
     (Header_Get (Header r) ''If-Match'' = [] \<and>
      Header_Get (Header r) ''If-Unmodified-Since'' = [] \<and>
      Header_Get (Header r) ''If-None-Match'' = [] \<and>
      Header_Get (Header r) ''If-Modified-Since'' = [])"

definition ServeContent_status :: "Request \<Rightarrow> string \<Rightarrow> nat option" where
  "ServeContent_status r content =
     (if \<not> no_preconditions r then None
      else if Header_Get (Header r) ''Range'' = [] then Some StatusOK
      else if Header_Get (Header r) ''Range'' = ''bytes=0-0''
             \<and> Header_Get (Header r) ''If-Range'' = [] \<and> content \<noteq> []
           then Some StatusPartialContent
      else None)"

fun StatusCode :: "Request \<Rightarrow> response \<Rightarrow> nat option" where
  "StatusCode r (http_Error msg code) = Some code"
| "StatusCode r (http_ServeContent content) = ServeContent_status r content"

section \<open>Package oidc: the endpoint\<close>

text \<open>
  \<^verbatim>\<open>NewEndpoint\<close> configures the manager, builds the protocol engine on it (and
  registers with it the handler that reads the signed-in user from the request), and
  derives the provider configuration from the external address.
\<close>

definition NewEndpoint ::
  "string \<Rightarrow> oidc_Service \<Rightarrow> console_Service \<Rightarrow> Duration \<Rightarrow> Duration \<Rightarrow> Duration \<Rightarrow> Endpoint" where
  "NewEndpoint externalAddress oidcService svc codeExpiry accessTokenExpiry refreshTokenExpiry =
     (let mgr = \<lparr>AuthorizeCodeExp = codeExpiry,
                 RefreshTokenCfg = \<lparr>AccessTokenExp = accessTokenExpiry,
                                    RefreshTokenExp = refreshTokenExpiry,
                                    IsGenerateRefresh = (0 <s refreshTokenExpiry)\<rparr>\<rparr>
      in \<lparr>tokenStore = TokenStore oidcService,
          service = svc,
          server = \<lparr>manager = mgr\<rparr>,
          config = \<lparr>Issuer = externalAddress,
                    AuthURL = externalAddress @ ''oauth/v2/authorize'',
                    TokenURL = externalAddress @ ''oauth/v2/tokens'',
                    UserInfoURL = externalAddress @ ''oauth/v2/userinfo''\<rparr>\<rparr>)"

definition Endpoint_WellKnownConfiguration :: "externals \<Rightarrow> Endpoint \<Rightarrow> Request \<Rightarrow> response" where
  "Endpoint_WellKnownConfiguration X e r =
     (case json_Marshal X (ProviderConfig_json (config e)) of
        Inl err \<Rightarrow> http_Error [] StatusInternalServerError
      | Inr data \<Rightarrow> http_ServeContent data)"

definition Endpoint_UserInfo :: "externals \<Rightarrow> Endpoint \<Rightarrow> Request \<Rightarrow> response \<times> call list" where
  "Endpoint_UserInfo X e r =
     (let accessToken = Header_Get (Header r) ''Authorization'' in
      if \<not> HasPrefix accessToken ''Bearer '' then (http_Error [] StatusUnauthorized, [])
      else
        (let accessToken = TrimPrefix accessToken ''Bearer '';
             calls = [GetByAccess_call accessToken]
         in (case tokenStore e accessToken of
               (info, Some err) \<Rightarrow> (http_Error [] StatusUnauthorized, calls)
             | (None, None) \<Rightarrow> (http_Error [] StatusUnauthorized, calls)
             | (Some info, None) \<Rightarrow>
                 (case parseScope X (GetScope info) of
                    Inl err \<Rightarrow> (http_Error [] StatusUnauthorized, calls)
                  | Inr (userInfo, actions) \<Rightarrow>
                      (case uuid_FromString X (GetUserID info) of
                         Inl err \<Rightarrow> (http_Error [] StatusUnauthorized, calls)
                       | Inr userID \<Rightarrow>
                           (let calls = calls @ [GetUser_call userID]
                            in (case GetUser (service e) userID of
                                  Inl err \<Rightarrow> (http_Error [] StatusUnauthorized, calls)
                                | Inr user \<Rightarrow>
                                    if Status user \<noteq> Active
                                    then (http_Error [] StatusUnauthorized, calls)
                                    else
                                      (let userInfo = userInfo\<lparr>Subject := ID user,
                                                              UserInfo.Email := User.Email user,
                                                              EmailVerified := True\<rparr>
                                       in (case json_Marshal X (UserInfo_json userInfo) of
                                             Inl err \<Rightarrow>
                                               (http_Error [] StatusInternalServerError, calls)
                                           | Inr data \<Rightarrow> (http_ServeContent data, calls))))))))))"

section \<open>Package overlay: the inspector\<close>

text \<open>
  \<^verbatim>\<open>Service.Inspect\<close> is declared outside \<^verbatim>\<open>inspector.go\<close>. Its outcome in a given
  state of the service is the Go pair it returns: the keys and the error (\<open>None\<close> is
  \<^verbatim>\<open>nil\<close>).
\<close>

record 'k overlay_Service =
  Inspect :: "'k list \<times> error option"

record 'k Inspector =
  service :: "'k overlay_Service"

record CountNodesResponse =
  Count :: int64

definition NewInspector :: "'k overlay_Service \<Rightarrow> 'k Inspector" where
  "NewInspector svc = \<lparr>service = svc\<rparr>"

text \<open>
  \<^verbatim>\<open>CountNodes\<close> returns the pair (response, error); a \<^verbatim>\<open>nil\<close> response is \<open>None\<close>.
  \<^verbatim>\<open>int64(len(overlayKeys))\<close> converts the length to a 64-bit integer.
\<close>

definition Inspector_CountNodes :: "'k Inspector \<Rightarrow> CountNodesResponse option \<times> error option" where
  "Inspector_CountNodes srv =
     (case Inspect (Inspector.service srv) of
        (overlayKeys, Some err) \<Rightarrow> (None, Some err)
      | (overlayKeys, None) \<Rightarrow> (Some \<lparr>Count = of_nat (length overlayKeys)\<rparr>, None))"

section \<open>Example collaborators\<close>

text \<open>
  A small concrete world on which the theorems below are run: a decoder that accepts one
  scope string, two parsable user ids, a token store with three access tokens (one of
  them the empty string), and an account service with one active and one inactive
  account.
\<close>

definition ex_scope :: string where
  "ex_scope = ''project:P bucket:b1 bucket:b2 cubbyhole:c''"

definition ex_parseScope :: "string \<Rightarrow> error + (UserInfo \<times> string list)" where
  "ex_parseScope s =
     (if s = ex_scope
      then Inr (\<lparr>Subject = 0, Email = ''from-token@example.test'', EmailVerified = False,
                 Project = ''P'', Buckets = [''b1'', ''b2''], Cubbyhole = ''c''\<rparr>, [])
      else Inl (GoError ''malformed scope''))"

definition ex_FromString :: "string \<Rightarrow> error + UUID" where
  "ex_FromString s =
     (if s = ''u1'' then Inr 1 else if s = ''u2'' then Inr 2 else if s = ''u3'' then Inr 3
      else Inl (GoError ''invalid uuid''))"

fun ex_render :: "go_value \<Rightarrow> string" where
  "ex_render (VString s) = s"
| "ex_render (VBool b) = (if b then ''true'' else ''false'')"
| "ex_render (VStrings xs) = concat (map (\<lambda>x. x @ '','') xs)"
| "ex_render (VUUID u) = (if u = 1 then ''u1'' else ''u?'')"

definition ex_Marshal :: "json_fields \<Rightarrow> error + string" where
  "ex_Marshal fs = Inr (concat (map (\<lambda>(k, v). k @ ''='' @ ex_render v @ '';'') fs))"

definition ex_Marshal_fails :: "json_fields \<Rightarrow> error + string" where
  "ex_Marshal_fails fs = Inl (GoError ''unsupported value'')"

definition ex_externals :: externals where
  "ex_externals =
     \<lparr>parseScope = ex_parseScope, uuid_FromString = ex_FromString,
      json_Marshal = ex_Marshal\<rparr>"

definition ex_TokenStore :: TokenStore where
  "ex_TokenStore access =
     (if access = ''A1'' then (Some \<lparr>GetScope = ex_scope, GetUserID = ''u1''\<rparr>, None)
      else if access = ''A2'' then (Some \<lparr>GetScope = ex_scope, GetUserID = ''u2''\<rparr>, None)
      else if access = ''A3'' then (Some \<lparr>GetScope = ex_scope, GetUserID = ''u3''\<rparr>, None)
      else if access = ''A4'' then (Some \<lparr>GetScope = ex_scope, GetUserID = ''nobody''\<rparr>, None)
      else if access = ''A5'' then (None, None)
      else if access = [] then (Some \<lparr>GetScope = ''project'', GetUserID = ''u1''\<rparr>, None)
      else (None, Some (GoError ''token not found'')))"

definition ex_GetUser :: "UUID \<Rightarrow> error + User" where
  "ex_GetUser uid =
     (if uid = 1 then Inr \<lparr>ID = 1, Email = ''u1@example.test'', Status = Active\<rparr>
      else if uid = 2 then Inr \<lparr>ID = 2, Email = ''u2@example.test'', Status = 0\<rparr>
      else Inl (GoError ''user not found''))"

definition ex_Endpoint :: Endpoint where
  "ex_Endpoint =
     NewEndpoint ''https://sat.example.test/'' \<lparr>TokenStore = ex_TokenStore\<rparr>
       \<lparr>GetUser = ex_GetUser\<rparr> 600000000000 3600000000000 0"

definition ex_request :: "string \<Rightarrow> Request" where
  "ex_request authorization = \<lparr>Header = [''Authorization'' \<mapsto> [authorization]]\<rparr>"

definition ex_request_bare :: Request where
  "ex_request_bare = \<lparr>Header = Map.empty\<rparr>"

definition ex_request_range :: Request where
  "ex_request_range = \<lparr>Header = [''Range'' \<mapsto> [''bytes=0-0'']]\<rparr>"

definition ex_TokenStore_none :: TokenStore where
  "ex_TokenStore_none access = (None, Some (GoError ''token not found''))"

definition ex_TokenStore_blank :: TokenStore where
  "ex_TokenStore_blank access =
     (if access = [] then (Some \<lparr>GetScope = ex_scope, GetUserID = ''u1''\<rparr>, None)
      else (None, None))"

section \<open>Auxiliary facts\<close>

lemma HasPrefix_iff: "HasPrefix s pre \<longleftrightarrow> (\<exists>t. s = pre @ t)"
  unfolding HasPrefix_def
  by (metis append_eq_conv_conj append_take_drop_id length_append le_add1)

lemma TrimPrefix_append: "TrimPrefix (pre @ t) pre = t"
  by (simp add: TrimPrefix_def HasPrefix_def)

lemma sint_length_64:
  assumes "n < 2 ^ 63"
  shows "sint (word_of_nat n :: 64 word) = int n"
proof -
  have "signed_take_bit 63 (int n) = int n"
    using assms
    by (intro signed_take_bit_int_eq_self) simp_all
  then show ?thesis by (simp add: signed_of_nat)
qed

lemma status_codes:
  "StatusOK = 200" "StatusPartialContent = 206" "StatusBadRequest = 400"
  "StatusUnauthorized = 401" "StatusInternalServerError = 500"
  by (simp_all add: StatusOK_def StatusPartialContent_def StatusBadRequest_def
      StatusUnauthorized_def StatusInternalServerError_def)

lemma ex_request_plain:
  "no_preconditions ex_request_bare" "Header_Get (Header ex_request_bare) ''Range'' = []"
  "no_preconditions ex_request_range"
  "Header_Get (Header ex_request_range) ''Range'' = ''bytes=0-0''"
  "Header_Get (Header ex_request_range) ''If-Range'' = []"
  by (simp_all add: no_preconditions_def ex_request_bare_def ex_request_range_def Header_Get_def)

text \<open>The example world, field by field.\<close>

lemma ex_Endpoint_fields:
  "tokenStore ex_Endpoint = ex_TokenStore"
  "GetUser (Endpoint.service ex_Endpoint) = ex_GetUser"
  by (simp_all add: ex_Endpoint_def NewEndpoint_def)

lemma ex_externals_fields:
  "parseScope ex_externals = ex_parseScope"
  "uuid_FromString ex_externals = ex_FromString"
  "json_Marshal ex_externals = ex_Marshal"
  by (simp_all add: ex_externals_def)

lemma ex_request_Authorization:
  "Header_Get (Header (ex_request a)) ''Authorization'' = a"
  "Header_Get (Header ex_request_bare) ''Authorization'' = []"
  by (simp_all add: ex_request_def ex_request_bare_def Header_Get_def)

lemmas ex_simps =
  ex_Endpoint_fields ex_externals_fields ex_request_Authorization
  ex_TokenStore_def ex_GetUser_def ex_parseScope_def ex_FromString_def ex_scope_def
  HasPrefix_def TrimPrefix_def Active_def

section \<open>User info: failures\<close>

text \<open>
  C1, as amended. Every user-info request that fails for one of the listed causes is
  answered with 401 Unauthorized and an empty error message, the same answer for every
  cause, so that the body written is the single line feed that ends the empty message.
  The causes: the Authorization header is missing or lacks the exact prefix; the token
  store reports an error or no record; the scope of the record does not parse; its user
  id does not parse; the account service reports an error; the account is not active.
\<close>

theorem UserInfo_failure_bare_401:
  assumes "hdr = Header_Get (Header r) ''Authorization''"
      and "tok = TrimPrefix hdr ''Bearer ''"
      and "\<not> HasPrefix hdr ''Bearer ''
         \<or> snd (tokenStore e tok) \<noteq> None \<or> fst (tokenStore e tok) = None
         \<or> (\<exists>info. fst (tokenStore e tok) = Some info \<and>
              ((\<exists>err. parseScope X (GetScope info) = Inl err)
             \<or> (\<exists>err. uuid_FromString X (GetUserID info) = Inl err)
             \<or> (\<exists>userID. uuid_FromString X (GetUserID info) = Inr userID \<and>
                  ((\<exists>err. GetUser (Endpoint.service e) userID = Inl err)
                 \<or> (\<exists>user. GetUser (Endpoint.service e) userID = Inr user \<and> Status user \<noteq> Active)))))"
  shows "fst (Endpoint_UserInfo X e r) = http_Error [] StatusUnauthorized
       \<and> StatusCode r (fst (Endpoint_UserInfo X e r)) = Some 401
       \<and> Error_body (fst (Endpoint_UserInfo X e r)) = Some [CHR 0x0A]"
proof -
  from assms have "fst (Endpoint_UserInfo X e r) = http_Error [] StatusUnauthorized"
    by (auto simp: Endpoint_UserInfo_def Let_def split: prod.splits option.splits sum.splits)
  then show ?thesis by (simp add: status_codes)
qed

text \<open>
  The theorem at work on the example world, once per cause: no header, a lower-case
  prefix, an unknown token, a \<^verbatim>\<open>nil\<close> record, an undecodable scope, an unparsable user
  id, an unknown user, an inactive account.
\<close>

theorem UserInfo_failure_bare_401_witness:
  "fst (Endpoint_UserInfo ex_externals ex_Endpoint ex_request_bare) = http_Error [] 401
   \<and> fst (Endpoint_UserInfo ex_externals ex_Endpoint (ex_request ''bearer A1'')) = http_Error [] 401
   \<and> fst (Endpoint_UserInfo ex_externals ex_Endpoint (ex_request ''Bearer A6'')) = http_Error [] 401
   \<and> fst (Endpoint_UserInfo ex_externals ex_Endpoint (ex_request ''Bearer A5'')) = http_Error [] 401
   \<and> fst (Endpoint_UserInfo ex_externals ex_Endpoint (ex_request ''Bearer '')) = http_Error [] 401
   \<and> fst (Endpoint_UserInfo ex_externals ex_Endpoint (ex_request ''Bearer A4'')) = http_Error [] 401
   \<and> fst (Endpoint_UserInfo ex_externals ex_Endpoint (ex_request ''Bearer A3'')) = http_Error [] 401
   \<and> fst (Endpoint_UserInfo ex_externals ex_Endpoint (ex_request ''Bearer A2'')) = http_Error [] 401
   \<and> Error_body (fst (Endpoint_UserInfo ex_externals ex_Endpoint (ex_request ''Bearer A2'')))
       = Some [CHR 0x0A]"
proof -
  have "fst (Endpoint_UserInfo ex_externals ex_Endpoint r) = http_Error [] StatusUnauthorized"
    if "r = ex_request_bare \<or> r \<in> ex_request ` {''bearer A1'', ''Bearer A6'', ''Bearer A5'',
          ''Bearer '', ''Bearer A4'', ''Bearer A3'', ''Bearer A2''}" for r
    using that
    by (intro UserInfo_failure_bare_401 [OF refl refl, THEN conjunct1]) (auto simp: ex_simps)
  then show ?thesis by (simp add: status_codes)
qed

text \<open>
  C1 as stated fails: a request without an Authorization header is answered with 401,
  and the body written is one line feed, not the empty string.
\<close>

theorem UserInfo_body_line_feed_counterexample:
  "fst (Endpoint_UserInfo ex_externals ex_Endpoint ex_request_bare)
     = http_Error [] StatusUnauthorized
   \<and> Error_body (fst (Endpoint_UserInfo ex_externals ex_Endpoint ex_request_bare))
     = Some [CHR 0x0A]
   \<and> Error_body (fst (Endpoint_UserInfo ex_externals ex_Endpoint ex_request_bare)) \<noteq> Some []"
  by (simp add: Endpoint_UserInfo_def ex_request_Authorization HasPrefix_def)

text \<open>
  C5. A token that resolves to an account whose status is not \<open>Active\<close> is answered with
  401 and never with the user-info document, although the token is found, its scope
  decodes and its user id parses and resolves.
\<close>

theorem UserInfo_inactive_account_401:
  assumes "hdr = Header_Get (Header r) ''Authorization''"
      and "tok = TrimPrefix hdr ''Bearer ''"
      and "HasPrefix hdr ''Bearer ''"
      and "tokenStore e tok = (Some info, None)"
      and "parseScope X (GetScope info) = Inr (userInfo, actions)"
      and "uuid_FromString X (GetUserID info) = Inr userID"
      and "GetUser (Endpoint.service e) userID = Inr user"
      and "Status user \<noteq> Active"
  shows "Endpoint_UserInfo X e r
           = (http_Error [] StatusUnauthorized, [GetByAccess_call tok, GetUser_call userID])
       \<and> (\<forall>data. fst (Endpoint_UserInfo X e r) \<noteq> http_ServeContent data)"
  using assms by (simp add: Endpoint_UserInfo_def)

text \<open>
  Token \<open>A2\<close> of the example world belongs to the inactive account 2.
\<close>

theorem UserInfo_inactive_account_401_witness:
  "GetUser (Endpoint.service ex_Endpoint) 2 = Inr \<lparr>ID = 2, Email = ''u2@example.test'', Status = 0\<rparr>
   \<and> (0 :: UserStatus) \<noteq> Active
   \<and> Endpoint_UserInfo ex_externals ex_Endpoint (ex_request ''Bearer A2'')
       = (http_Error [] 401, [GetByAccess_call ''A2'', GetUser_call 2])"
proof -
  have u: "GetUser (Endpoint.service ex_Endpoint) 2
             = Inr \<lparr>ID = 2, Email = ''u2@example.test'', Status = 0\<rparr>"
    by (simp add: ex_simps)
  have "Endpoint_UserInfo ex_externals ex_Endpoint (ex_request ''Bearer A2'')
          = (http_Error [] StatusUnauthorized, [GetByAccess_call ''A2'', GetUser_call 2])"
    using UserInfo_inactive_account_401
          [where X = ex_externals and e = ex_Endpoint and r = "ex_request ''Bearer A2''"
             and info = "\<lparr>GetScope = ex_scope, GetUserID = ''u2''\<rparr>"
             and user = "\<lparr>ID = 2, Email = ''u2@example.test'', Status = 0\<rparr>"
             and userInfo = "\<lparr>Subject = 0, Email = ''from-token@example.test'',
                              EmailVerified = False, Project = ''P'',
                              Buckets = [''b1'', ''b2''], Cubbyhole = ''c''\<rparr>"
             and actions = "[]" and userID = 2, OF refl refl]
    by (simp add: ex_simps)
  with u show ?thesis by (simp add: status_codes ex_simps)
qed

section \<open>User info: the bearer prefix and the token lookup\<close>

text \<open>
  C7. A header that does not start with the case-sensitive prefix \<open>Bearer \<close> is answered
  with 401 before any store lookup. Otherwise exactly the prefix is stripped, the
  remainder is the one token value looked up in the token store, and a lookup that
  reports an error or no record (an absent or expired token) is answered with 401.
\<close>

theorem UserInfo_bearer_prefix:
  assumes "hdr = Header_Get (Header r) ''Authorization''"
  shows "(\<not> (\<exists>t. hdr = ''Bearer '' @ t) \<longrightarrow>
            Endpoint_UserInfo X e r = (http_Error [] StatusUnauthorized, []))
       \<and> (\<forall>t. hdr = ''Bearer '' @ t \<longrightarrow>
            (\<exists>rest. snd (Endpoint_UserInfo X e r) = GetByAccess_call t # rest
                    \<and> (\<forall>t'. GetByAccess_call t' \<notin> set rest))
          \<and> (snd (tokenStore e t) \<noteq> None \<or> fst (tokenStore e t) = None \<longrightarrow>
               Endpoint_UserInfo X e r = (http_Error [] StatusUnauthorized, [GetByAccess_call t])))"
proof (intro conjI impI allI)
  assume "\<not> (\<exists>t. hdr = ''Bearer '' @ t)"
  then have "\<not> HasPrefix hdr ''Bearer ''" by (simp add: HasPrefix_iff)
  with assms show "Endpoint_UserInfo X e r = (http_Error [] StatusUnauthorized, [])"
    by (simp add: Endpoint_UserInfo_def)
next
  fix t assume t: "hdr = ''Bearer '' @ t"
  have p: "HasPrefix hdr ''Bearer ''"
    unfolding HasPrefix_iff using t by (rule exI)
  have tr: "TrimPrefix hdr ''Bearer '' = t"
    unfolding t by (rule TrimPrefix_append)
  from assms p tr
  show "\<exists>rest. snd (Endpoint_UserInfo X e r) = GetByAccess_call t # rest
          \<and> (\<forall>t'. GetByAccess_call t' \<notin> set rest)"
    by (auto simp: Endpoint_UserInfo_def Let_def split: prod.splits option.splits sum.splits)
  assume "snd (tokenStore e t) \<noteq> None \<or> fst (tokenStore e t) = None"
  with assms p tr
  show "Endpoint_UserInfo X e r = (http_Error [] StatusUnauthorized, [GetByAccess_call t])"
    by (auto simp: Endpoint_UserInfo_def Let_def split: prod.splits option.splits sum.splits)
qed

text \<open>
  Lower-case \<open>bearer\<close>, the prefix without its blank, and no header at all are turned
  away without a lookup; after \<open>Bearer \<close> the rest of the header is looked up as it is,
  a second blank included.
\<close>

theorem UserInfo_bearer_prefix_witness:
  "Endpoint_UserInfo ex_externals ex_Endpoint (ex_request ''bearer A1'') = (http_Error [] 401, [])
   \<and> Endpoint_UserInfo ex_externals ex_Endpoint (ex_request ''Bearer'') = (http_Error [] 401, [])
   \<and> Endpoint_UserInfo ex_externals ex_Endpoint ex_request_bare = (http_Error [] 401, [])
   \<and> hd (snd (Endpoint_UserInfo ex_externals ex_Endpoint (ex_request ''Bearer A1'')))
       = GetByAccess_call ''A1''
   \<and> Endpoint_UserInfo ex_externals ex_Endpoint (ex_request ''Bearer  A1'')
       = (http_Error [] 401, [GetByAccess_call '' A1''])
   \<and> Endpoint_UserInfo ex_externals ex_Endpoint (ex_request ''Bearer A5'')
       = (http_Error [] 401, [GetByAccess_call ''A5''])"
proof -
  note rl = UserInfo_bearer_prefix [where X = ex_externals and e = ex_Endpoint, OF refl]
  have no: "Endpoint_UserInfo ex_externals ex_Endpoint r = (http_Error [] StatusUnauthorized, [])"
    if "r = ex_request ''bearer A1'' \<or> r = ex_request ''Bearer'' \<or> r = ex_request_bare" for r
    using that rl [of r, THEN conjunct1] by (auto simp: ex_simps)
  have a1: "hd (snd (Endpoint_UserInfo ex_externals ex_Endpoint (ex_request ''Bearer A1'')))
       = GetByAccess_call ''A1''"
    using rl [of "ex_request ''Bearer A1''", THEN conjunct2, rule_format, of "''A1''"]
    by (auto simp: ex_simps)
  have a2: "Endpoint_UserInfo ex_externals ex_Endpoint (ex_request ''Bearer  A1'')
       = (http_Error [] StatusUnauthorized, [GetByAccess_call '' A1''])"
    using rl [of "ex_request ''Bearer  A1''", THEN conjunct2, rule_format, of "'' A1''"]
    by (simp add: ex_simps)
  have a5: "Endpoint_UserInfo ex_externals ex_Endpoint (ex_request ''Bearer A5'')
       = (http_Error [] StatusUnauthorized, [GetByAccess_call ''A5''])"
    using rl [of "ex_request ''Bearer A5''", THEN conjunct2, rule_format, of "''A5''"]
    by (simp add: ex_simps)
  from no a1 a2 a5 show ?thesis by (simp add: status_codes)
qed

text \<open>
  C10, as amended. A request whose Authorization header is exactly \<open>Bearer \<close> passes the
  prefix check, and the empty string is looked up in the token store. A lookup that
  reports an error or no record is answered with 401. When the lookup yields a record,
  the later checks decide as for any other token: the answer is 401 exactly when the
  lookup fails, or the scope or the user id of the record does not parse, or the account
  service reports an error, or the account is not active.
\<close>

theorem UserInfo_empty_token:
  assumes "Header_Get (Header r) ''Authorization'' = ''Bearer ''"
  shows "HasPrefix (Header_Get (Header r) ''Authorization'') ''Bearer ''
       \<and> (\<exists>rest. snd (Endpoint_UserInfo X e r) = GetByAccess_call [] # rest)
       \<and> (snd (tokenStore e []) \<noteq> None \<or> fst (tokenStore e []) = None \<longrightarrow>
            Endpoint_UserInfo X e r = (http_Error [] StatusUnauthorized, [GetByAccess_call []]))
       \<and> (fst (Endpoint_UserInfo X e r) = http_Error [] StatusUnauthorized \<longleftrightarrow>
            snd (tokenStore e []) \<noteq> None \<or> fst (tokenStore e []) = None
          \<or> (\<exists>info. fst (tokenStore e []) = Some info \<and>
              ((\<exists>err. parseScope X (GetScope info) = Inl err)
             \<or> (\<exists>err. uuid_FromString X (GetUserID info) = Inl err)
             \<or> (\<exists>userID. uuid_FromString X (GetUserID info) = Inr userID \<and>
                  ((\<exists>err. GetUser (Endpoint.service e) userID = Inl err)
                 \<or> (\<exists>user. GetUser (Endpoint.service e) userID = Inr user \<and> Status user \<noteq> Active))))))"
proof -
  have p: "HasPrefix ''Bearer '' ''Bearer ''" and tr: "TrimPrefix ''Bearer '' ''Bearer '' = []"
    by (simp_all add: HasPrefix_def TrimPrefix_def)
  have ne: "StatusInternalServerError \<noteq> StatusUnauthorized"
    by (simp add: StatusInternalServerError_def StatusUnauthorized_def)
  from assms p tr ne show ?thesis
    by (auto simp: Endpoint_UserInfo_def Let_def split: prod.splits option.splits sum.splits)
qed

text \<open>
  Three stores under the same header \<open>Bearer \<close>: one whose record for the empty token
  carries an undecodable scope, one that knows no token, and one whose record for the
  empty token is fully valid, which is served.
\<close>

theorem UserInfo_empty_token_witness:
  "Endpoint_UserInfo ex_externals ex_Endpoint (ex_request ''Bearer '')
     = (http_Error [] 401, [GetByAccess_call []])
   \<and> Endpoint_UserInfo ex_externals (ex_Endpoint\<lparr>tokenStore := ex_TokenStore_none\<rparr>)
        (ex_request ''Bearer '')
     = (http_Error [] 401, [GetByAccess_call []])
   \<and> fst (Endpoint_UserInfo ex_externals (ex_Endpoint\<lparr>tokenStore := ex_TokenStore_blank\<rparr>)
        (ex_request ''Bearer ''))
     \<noteq> http_Error [] 401"
proof -
  have h: "Header_Get (Header (ex_request ''Bearer '')) ''Authorization'' = ''Bearer ''"
    by (simp add: ex_simps)
  note rl = UserInfo_empty_token [OF h, of ex_externals]
  have calls: "snd (Endpoint_UserInfo ex_externals ex_Endpoint (ex_request ''Bearer ''))
     = [GetByAccess_call []]"
    by (simp add: Endpoint_UserInfo_def ex_simps)
  have "fst (Endpoint_UserInfo ex_externals ex_Endpoint (ex_request ''Bearer ''))
             = http_Error [] StatusUnauthorized"
    using rl [of ex_Endpoint] by (simp add: ex_simps)
  with calls
  have a: "Endpoint_UserInfo ex_externals ex_Endpoint (ex_request ''Bearer '')
             = (http_Error [] StatusUnauthorized, [GetByAccess_call []])"
    by (simp add: prod_eq_iff)
  have b: "Endpoint_UserInfo ex_externals (ex_Endpoint\<lparr>tokenStore := ex_TokenStore_none\<rparr>)
        (ex_request ''Bearer '') = (http_Error [] StatusUnauthorized, [GetByAccess_call []])"
    using rl [of "ex_Endpoint\<lparr>tokenStore := ex_TokenStore_none\<rparr>"]
    by (simp add: ex_TokenStore_none_def)
  have c: "fst (Endpoint_UserInfo ex_externals (ex_Endpoint\<lparr>tokenStore := ex_TokenStore_blank\<rparr>)
        (ex_request ''Bearer '')) \<noteq> http_Error [] StatusUnauthorized"
    using rl [of "ex_Endpoint\<lparr>tokenStore := ex_TokenStore_blank\<rparr>"]
    by (simp add: ex_TokenStore_blank_def ex_simps)
  from a b c show ?thesis by (simp add: status_codes)
qed

text \<open>
  C10 as stated fails: in the example world the lookup of the empty token returns a
  record and no error, and the request is rejected with 401 all the same, because the
  scope of the record does not parse.
\<close>

theorem empty_token_later_rejection_counterexample:
  "Header_Get (Header (ex_request ''Bearer '')) ''Authorization'' = ''Bearer ''
   \<and> tokenStore ex_Endpoint [] = (Some \<lparr>GetScope = ''project'', GetUserID = ''u1''\<rparr>, None)
   \<and> Endpoint_UserInfo ex_externals ex_Endpoint (ex_request ''Bearer '')
       = (http_Error [] StatusUnauthorized, [GetByAccess_call []])"
  by (simp add: Endpoint_UserInfo_def ex_simps)

section \<open>User info: the document\<close>

text \<open>
  C3. On success the document handed to \<^verbatim>\<open>json.Marshal\<close> takes \<open>sub\<close> and \<open>email\<close> from
  the user record that the account service returned during this request, sets
  \<open>email_verified\<close> to true for that (active) account, and takes \<open>project\<close>, \<open>buckets\<close> and
  \<open>cubbyhole\<close> from the decoded scope of the token. Whatever the decoder left in the
  first three fields is overwritten.
\<close>

theorem UserInfo_document_sources:
  assumes "hdr = Header_Get (Header r) ''Authorization''"
      and "tok = TrimPrefix hdr ''Bearer ''"
      and "HasPrefix hdr ''Bearer ''"
      and "tokenStore e tok = (Some info, None)"
      and "parseScope X (GetScope info) = Inr (userInfo, actions)"
      and "uuid_FromString X (GetUserID info) = Inr userID"
      and "GetUser (Endpoint.service e) userID = Inr user"
      and "Status user = Active"
  shows "Endpoint_UserInfo X e r =
           ((case json_Marshal X
                    [(''sub'', VUUID (ID user)),
                     (''email'', VString (User.Email user)),
                     (''email_verified'', VBool True),
                     (''project'', VString (Project userInfo)),
                     (''buckets'', VStrings (Buckets userInfo)),
                     (''cubbyhole'', VString (Cubbyhole userInfo))] of
               Inl err \<Rightarrow> http_Error [] StatusInternalServerError
             | Inr data \<Rightarrow> http_ServeContent data),
            [GetByAccess_call tok, GetUser_call userID])"
  using assms by (simp add: Endpoint_UserInfo_def UserInfo_json_def split: sum.splits)

text \<open>
  Token \<open>A1\<close> of the example world: the decoder fills the e-mail field from the token,
  and the served document carries the e-mail of the account instead.
\<close>

theorem UserInfo_document_sources_witness:
  "Endpoint_UserInfo ex_externals ex_Endpoint (ex_request ''Bearer A1'')
     = (http_ServeContent
          ''sub=u1;email=u1@example.test;email_verified=true;project=P;buckets=b1,b2,;cubbyhole=c;'',
        [GetByAccess_call ''A1'', GetUser_call 1])"
proof -
  have "Endpoint_UserInfo ex_externals ex_Endpoint (ex_request ''Bearer A1'')
     = ((case json_Marshal ex_externals
                    [(''sub'', VUUID 1),
                     (''email'', VString ''u1@example.test''),
                     (''email_verified'', VBool True),
                     (''project'', VString ''P''),
                     (''buckets'', VStrings [''b1'', ''b2'']),
                     (''cubbyhole'', VString ''c'')] of
               Inl err \<Rightarrow> http_Error [] StatusInternalServerError
             | Inr data \<Rightarrow> http_ServeContent data),
            [GetByAccess_call (TrimPrefix ''Bearer A1'' ''Bearer ''), GetUser_call 1])"
    using UserInfo_document_sources
          [where X = ex_externals and e = ex_Endpoint and r = "ex_request ''Bearer A1''"
             and info = "\<lparr>GetScope = ex_scope, GetUserID = ''u1''\<rparr>"
             and user = "\<lparr>ID = 1, Email = ''u1@example.test'', Status = Active\<rparr>"
             and userInfo = "\<lparr>Subject = 0, Email = ''from-token@example.test'',
                              EmailVerified = False, Project = ''P'',
                              Buckets = [''b1'', ''b2''], Cubbyhole = ''c''\<rparr>"
             and actions = "[]" and userID = 1, OF refl refl]
    by (simp add: ex_simps)
  then show ?thesis by (simp add: ex_simps ex_Marshal_def)
qed

section \<open>Discovery\<close>

text \<open>
  C8, as amended. For every request, the discovery handler of an endpoint built by
  \<^verbatim>\<open>NewEndpoint\<close> marshals exactly the four members \<open>issuer\<close>,
  \<open>authorization_endpoint\<close>, \<open>token_endpoint\<close> and \<open>userinfo_endpoint\<close>, each derived from
  the external address, and hands the result to \<^verbatim>\<open>http.ServeContent\<close>; when marshalling
  fails it answers 500. A request without \<^verbatim>\<open>Range\<close> and without precondition headers is
  answered with 200.
\<close>

theorem WellKnownConfiguration_document:
  "Endpoint_WellKnownConfiguration X
      (NewEndpoint externalAddress oidcService svc codeExpiry accessTokenExpiry refreshTokenExpiry) r
     = (case json_Marshal X
               [(''issuer'', VString externalAddress),
                (''authorization_endpoint'', VString (externalAddress @ ''oauth/v2/authorize'')),
                (''token_endpoint'', VString (externalAddress @ ''oauth/v2/tokens'')),
                (''userinfo_endpoint'', VString (externalAddress @ ''oauth/v2/userinfo''))] of
          Inl err \<Rightarrow> http_Error [] StatusInternalServerError
        | Inr data \<Rightarrow> http_ServeContent data)
   \<and> (no_preconditions r \<and> Header_Get (Header r) ''Range'' = [] \<longrightarrow>
        StatusCode r (Endpoint_WellKnownConfiguration X
          (NewEndpoint externalAddress oidcService svc codeExpiry accessTokenExpiry
             refreshTokenExpiry) r)
        = (case json_Marshal X
               [(''issuer'', VString externalAddress),
                (''authorization_endpoint'', VString (externalAddress @ ''oauth/v2/authorize'')),
                (''token_endpoint'', VString (externalAddress @ ''oauth/v2/tokens'')),
                (''userinfo_endpoint'', VString (externalAddress @ ''oauth/v2/userinfo''))] of
             Inl err \<Rightarrow> Some 500 | Inr data \<Rightarrow> Some 200))"
  by (simp add: Endpoint_WellKnownConfiguration_def NewEndpoint_def ProviderConfig_json_def
      ServeContent_status_def status_codes split: sum.splits)

text \<open>
  The endpoint of the example world on a request without headers, with a marshaller that
  succeeds and with one that fails.
\<close>

theorem WellKnownConfiguration_document_witness:
  "Endpoint_WellKnownConfiguration ex_externals ex_Endpoint ex_request_bare
     = http_ServeContent (''issuer=https://sat.example.test/;''
         @ ''authorization_endpoint=https://sat.example.test/oauth/v2/authorize;''
         @ ''token_endpoint=https://sat.example.test/oauth/v2/tokens;''
         @ ''userinfo_endpoint=https://sat.example.test/oauth/v2/userinfo;'')
   \<and> StatusCode ex_request_bare
        (Endpoint_WellKnownConfiguration ex_externals ex_Endpoint ex_request_bare) = Some 200
   \<and> Endpoint_WellKnownConfiguration (ex_externals\<lparr>json_Marshal := ex_Marshal_fails\<rparr>)
        ex_Endpoint ex_request_bare
     = http_Error [] 500"
proof -
  have ok: "Endpoint_WellKnownConfiguration ex_externals ex_Endpoint ex_request_bare
     = http_ServeContent (''issuer=https://sat.example.test/;''
         @ ''authorization_endpoint=https://sat.example.test/oauth/v2/authorize;''
         @ ''token_endpoint=https://sat.example.test/oauth/v2/tokens;''
         @ ''userinfo_endpoint=https://sat.example.test/oauth/v2/userinfo;'')"
    unfolding ex_Endpoint_def
    by (rule WellKnownConfiguration_document [THEN conjunct1, THEN trans])
       (simp add: ex_externals_fields ex_Marshal_def)
  have st: "StatusCode ex_request_bare
        (Endpoint_WellKnownConfiguration ex_externals ex_Endpoint ex_request_bare) = Some 200"
    unfolding ex_Endpoint_def
    by (rule WellKnownConfiguration_document [THEN conjunct2, rule_format, THEN trans])
       (simp_all add: ex_request_plain ex_externals_fields ex_Marshal_def)
  have bad: "Endpoint_WellKnownConfiguration (ex_externals\<lparr>json_Marshal := ex_Marshal_fails\<rparr>)
        ex_Endpoint ex_request_bare
     = http_Error [] StatusInternalServerError"
    unfolding ex_Endpoint_def
    by (rule WellKnownConfiguration_document [THEN conjunct1, THEN trans])
       (simp add: ex_Marshal_fails_def)
  from ok st bad show ?thesis by (simp add: status_codes)
qed

text \<open>
  C8 as stated fails: a request that asks for the first byte of the document with
  \<^verbatim>\<open>Range: bytes=0-0\<close> is answered with 206, not 200.
\<close>

theorem WellKnownConfiguration_range_counterexample:
  "StatusCode ex_request_range
     (Endpoint_WellKnownConfiguration ex_externals ex_Endpoint ex_request_range)
     = Some StatusPartialContent
   \<and> StatusCode ex_request_range
     (Endpoint_WellKnownConfiguration ex_externals ex_Endpoint ex_request_range)
     \<noteq> Some StatusOK"
  by (simp add: Endpoint_WellKnownConfiguration_def ex_externals_fields ex_Marshal_def
      ex_Endpoint_def NewEndpoint_def ProviderConfig_json_def ServeContent_status_def
      ex_request_plain status_codes)

section \<open>Counting nodes\<close>

text \<open>
  C9. \<^verbatim>\<open>CountNodes\<close> returns the error of \<^verbatim>\<open>Inspect\<close> unchanged; its response is
  \<^verbatim>\<open>nil\<close> exactly when \<^verbatim>\<open>Inspect\<close> reports an error; otherwise the response's \<open>Count\<close>
  is the number of keys \<^verbatim>\<open>Inspect\<close> returned. A Go slice has fewer than \<open>2 ^ 63\<close>
  elements.
\<close>

theorem CountNodes_count_and_error:
  assumes "length (fst (Inspect (Inspector.service srv))) < 2 ^ 63"
  shows "snd (Inspector_CountNodes srv) = snd (Inspect (Inspector.service srv))
       \<and> (fst (Inspector_CountNodes srv) = None \<longleftrightarrow> snd (Inspect (Inspector.service srv)) \<noteq> None)
       \<and> (snd (Inspect (Inspector.service srv)) = None \<longrightarrow>
            (\<exists>resp. fst (Inspector_CountNodes srv) = Some resp
               \<and> sint (Count resp) = int (length (fst (Inspect (Inspector.service srv))))))"
proof (cases "Inspect (Inspector.service srv)")
  case (Pair overlayKeys err)
  with assms have len: "length overlayKeys < 2 ^ 63" by simp
  have "sint (word_of_nat (length overlayKeys) :: 64 word) = int (length overlayKeys)"
    using len by (rule sint_length_64)
  with Pair show ?thesis
    by (cases err) (simp_all add: Inspector_CountNodes_def)
qed

text \<open>
  A service that reports three keys, and one that reports an error.
\<close>

theorem CountNodes_count_and_error_witness:
  "snd (Inspector_CountNodes (NewInspector \<lparr>Inspect = ([''n1'', ''n2'', ''n3''], None)\<rparr>)) = None
   \<and> map_option (\<lambda>resp. sint (Count resp))
        (fst (Inspector_CountNodes (NewInspector \<lparr>Inspect = ([''n1'', ''n2'', ''n3''], None)\<rparr>)))
      = Some 3
   \<and> Inspector_CountNodes
        (NewInspector \<lparr>Inspect = ([] :: string list, Some (GoError ''not implemented''))\<rparr>)
      = (None, Some (GoError ''not implemented''))"
proof -
  let ?ok = "NewInspector \<lparr>Inspect = ([''n1'', ''n2'', ''n3''], None)\<rparr>"
  let ?bad = "NewInspector \<lparr>Inspect = ([] :: string list, Some (GoError ''not implemented''))\<rparr>"
  have "length (fst (Inspect (Inspector.service ?ok))) < 2 ^ 63"
    by (simp add: NewInspector_def)
  from CountNodes_count_and_error [OF this]
  have ok: "snd (Inspector_CountNodes ?ok) = None
      \<and> map_option (\<lambda>resp. sint (Count resp)) (fst (Inspector_CountNodes ?ok)) = Some 3"
    by (auto simp: NewInspector_def)
  have "length (fst (Inspect (Inspector.service ?bad))) < 2 ^ 63"
    by (simp add: NewInspector_def)
  from CountNodes_count_and_error [OF this]
  have bad: "Inspector_CountNodes ?bad = (None, Some (GoError ''not implemented''))"
    by (simp add: NewInspector_def prod_eq_iff)
  from ok bad show ?thesis by simp
qed

end
